theory Spec2Isabelle
  imports Main "HOL-Library.Word"
begin

section \<open>planfix: forcing index use through a whitelist of indexes per table\<close>

text \<open>
  The development follows \<^verbatim>\<open>planfix.c\<close>. A C string is represented by the characters
  that precede its terminating NUL, so the end of a list is the position where the
  code reads \<^verbatim>\<open>*nextp == '\0'\<close>. Every string that reaches the tokenizer is a
  \<^verbatim>\<open>palloc\<close>ed copy, which PostgreSQL keeps below one gigabyte, so the
  \<^verbatim>\<open>int len\<close> of a token cannot overflow and is a natural number here.
\<close>

subsection \<open>Tokenizer: \<^verbatim>\<open>SimpleStringSplit\<close>\<close>

text \<open>
  One round of the \<^verbatim>\<open>for (;;)\<close> loop. \<open>curr\<close> is the run that the inner
  \<^verbatim>\<open>while (*nextp && *nextp != separator)\<close> walks over, \<open>nextp\<close> is what is left when it
  stops. A run of positive length is appended to the token list. The loop ends at the
  terminator and otherwise steps over the separator.
\<close>

function split_loop :: "char \<Rightarrow> string \<Rightarrow> string list \<Rightarrow> string list" where
  "split_loop separator s tokenList =
     (let curr = takeWhile (\<lambda>c. c \<noteq> separator) s;
          nextp = dropWhile (\<lambda>c. c \<noteq> separator) s;
          tokenList' = (if length curr > 0 then tokenList @ [curr] else tokenList)
      in case nextp of
           [] \<Rightarrow> tokenList'
         | _ # rest \<Rightarrow> split_loop separator rest tokenList')"
  by pat_completeness auto
termination
  apply (relation "measure (\<lambda>(separator, s, tokenList). length s)")
   apply simp
  apply auto
  apply (metis Suc_le_lessD length_Cons length_dropWhile_le)
  done

definition SimpleStringSplit :: "string \<Rightarrow> char \<Rightarrow> string list" where
  "SimpleStringSplit s separator = split_loop separator s []"

text \<open>
  The tokenizer as the specification words it: the runs of characters between the
  occurrences of the separator, of which the empty ones are dropped.
\<close>

fun runs_between :: "char \<Rightarrow> string \<Rightarrow> string list" where
  "runs_between separator [] = [[]]"
| "runs_between separator (c # cs) =
     (if c = separator then [] # runs_between separator cs
      else (case runs_between separator cs of
              [] \<Rightarrow> [[c]]
            | t # ts \<Rightarrow> (c # t) # ts))"

definition split_spec :: "string \<Rightarrow> char \<Rightarrow> string list" where
  "split_spec s separator = filter (\<lambda>t. t \<noteq> []) (runs_between separator s)"

text \<open>Putting the separator back between consecutive runs.\<close>

fun join_runs :: "char \<Rightarrow> string list \<Rightarrow> string" where
  "join_runs separator [] = []"
| "join_runs separator (t # ts) = t @ concat (map (\<lambda>u. separator # u) ts)"

subsection \<open>Data model\<close>

text \<open>
  \<^verbatim>\<open>Oid\<close> is PostgreSQL's unsigned 32-bit object identifier and \<^verbatim>\<open>InvalidOid\<close> is zero. A
  relation kind is the character stored in \<^verbatim>\<open>pg_class.relkind\<close>.
\<close>

type_synonym Oid = "32 word"

definition InvalidOid :: Oid where
  "InvalidOid = 0"

definition RELKIND_RELATION :: char where
  "RELKIND_RELATION = CHR ''r''"

definition RELKIND_INDEX :: char where
  "RELKIND_INDEX = CHR ''i''"

datatype PlanfixOp = PLANFIX_OP_FORCEINDEX

record PlanfixDirective =
  op :: PlanfixOp
  relation :: Oid
  indices :: "Oid list"

text \<open>
  Of the planner's \<^verbatim>\<open>IndexOptInfo\<close> and \<^verbatim>\<open>RelOptInfo\<close> the code reads \<^verbatim>\<open>indexoid\<close> and
  rewrites \<^verbatim>\<open>indexlist\<close>. Everything else a node holds is the opaque component
  \<open>index_rest\<close> and \<open>rel_rest\<close>. The lists of the source hold pointers; here they hold
  the nodes, and whatever tells two nodes apart is part of the opaque component.
\<close>

record 'm IndexOptInfo =
  indexoid :: Oid
  index_rest :: 'm

record ('m, 'p) RelOptInfo =
  indexlist :: "'m IndexOptInfo list"
  rel_rest :: 'p

text \<open>
  A hook of type \<^verbatim>\<open>get_relation_info_hook_type\<close> receives the planner's root, the
  relation's identifier, \<^verbatim>\<open>inhparent\<close> and the \<^verbatim>\<open>RelOptInfo\<close>, which it may rewrite. The
  global hook pointer is empty, this module's own hook, or a hook of another module.
\<close>

type_synonym ('r, 'm, 'p) hook_type =
  "'r \<Rightarrow> Oid \<Rightarrow> bool \<Rightarrow> ('m, 'p) RelOptInfo \<Rightarrow> ('m, 'p) RelOptInfo"

datatype ('r, 'm, 'p) hook_ptr =
    PlanfixHook
  | ForeignHook "('r, 'm, 'p) hook_type"

text \<open>
  The globals: the list \<^verbatim>\<open>directives\<close>, the saved \<^verbatim>\<open>oldHook\<close> and PostgreSQL's
  \<^verbatim>\<open>get_relation_info_hook\<close>. \<^verbatim>\<open>_PG_init\<close> stores in \<^verbatim>\<open>oldHook\<close> only a pointer that
  differs from \<^verbatim>\<open>planfixHook\<close>, so \<open>oldHook\<close> is empty or a hook of another module.
\<close>

record ('r, 'm, 'p) globals =
  directives :: "PlanfixDirective list"
  oldHook :: "('r, 'm, 'p) hook_type option"
  get_relation_info_hook :: "('r, 'm, 'p) hook_ptr option"

subsection \<open>PostgreSQL's list primitives\<close>

text \<open>
  \<^verbatim>\<open>list_delete_ptr\<close> removes the first cell that holds the given element and leaves a
  list without it as it is. \<^verbatim>\<open>list_member_oid\<close> tests membership; the empty list is
  \<^verbatim>\<open>NIL\<close>, the null pointer.
\<close>

fun list_delete_ptr :: "'a list \<Rightarrow> 'a \<Rightarrow> 'a list" where
  "list_delete_ptr [] datum = []"
| "list_delete_ptr (x # xs) datum =
     (if x = datum then xs else x # list_delete_ptr xs datum)"

fun list_member_oid :: "Oid list \<Rightarrow> Oid \<Rightarrow> bool" where
  "list_member_oid [] datum = False"
| "list_member_oid (x # xs) datum = (if x = datum then True else list_member_oid xs datum)"

subsection \<open>Compiling and installing a configuration: \<^verbatim>\<open>varForcedIndexAssign\<close>\<close>

text \<open>
  The four \<^verbatim>\<open>elog(ERROR, ...)\<close> calls, each with the name it reports:
  \<^verbatim>\<open>oid invalid for name\<close>, \<^verbatim>\<open>only one relation must be defined\<close>,
  \<^verbatim>\<open>one relation must be defined first\<close> and \<^verbatim>\<open>unhandled relkind for\<close>.
\<close>

datatype planfix_error =
    UnknownIdentifier string
  | MultipleTablesInGroup string
  | IndexBeforeTable string
  | UnsupportedRelationKind string

text \<open>
  The catalogue is not part of the module and is taken as two parameters:
  \<open>RangeVarGetRelid\<close> stands for the lookup of a (qualified) name with
  \<^verbatim>\<open>missing_ok = true\<close>, which answers \<^verbatim>\<open>InvalidOid\<close> for an unknown name, and
  \<open>get_rel_relkind\<close> gives the kind of a relation.

  \<open>section_items\<close> is the inner \<^verbatim>\<open>foreach (c2, section)\<close> over the items of one group,
  working on the directive \<open>d\<close> under construction.
\<close>

fun section_items ::
  "(string \<Rightarrow> Oid) \<Rightarrow> (Oid \<Rightarrow> char) \<Rightarrow> string list \<Rightarrow> PlanfixDirective
     \<Rightarrow> planfix_error + PlanfixDirective" where
  "section_items RangeVarGetRelid get_rel_relkind [] d = Inr d"
| "section_items RangeVarGetRelid get_rel_relkind (name # rest) d =
     (let oid = RangeVarGetRelid name in
      if oid = InvalidOid then Inl (UnknownIdentifier name)
      else if get_rel_relkind oid = RELKIND_RELATION then
        (if relation d \<noteq> InvalidOid then Inl (MultipleTablesInGroup name)
         else section_items RangeVarGetRelid get_rel_relkind rest (d\<lparr>relation := oid\<rparr>))
      else if get_rel_relkind oid = RELKIND_INDEX then
        (if relation d = InvalidOid then Inl (IndexBeforeTable name)
         else section_items RangeVarGetRelid get_rel_relkind rest
                (d\<lparr>indices := indices d @ [oid]\<rparr>))
      else Inl (UnsupportedRelationKind name))"

text \<open>
  The body of the outer \<^verbatim>\<open>foreach (c, sections)\<close> for one group: a fresh directive,
  the group split at commas, the items processed in order.
\<close>

definition compile_section ::
  "(string \<Rightarrow> Oid) \<Rightarrow> (Oid \<Rightarrow> char) \<Rightarrow> string \<Rightarrow> planfix_error + PlanfixDirective" where
  "compile_section RangeVarGetRelid get_rel_relkind s =
     section_items RangeVarGetRelid get_rel_relkind (SimpleStringSplit s CHR '','')
       \<lparr>op = PLANFIX_OP_FORCEINDEX, relation = InvalidOid, indices = []\<rparr>"

text \<open>
  The outer loop. Every group that compiles is appended to \<open>tmpdirectives\<close>; the first
  error ends the loop.
\<close>

fun compile_sections ::
  "(string \<Rightarrow> Oid) \<Rightarrow> (Oid \<Rightarrow> char) \<Rightarrow> string list \<Rightarrow> PlanfixDirective list
     \<Rightarrow> planfix_error + PlanfixDirective list" where
  "compile_sections RangeVarGetRelid get_rel_relkind [] tmpdirectives = Inr tmpdirectives"
| "compile_sections RangeVarGetRelid get_rel_relkind (s # sections) tmpdirectives =
     (case compile_section RangeVarGetRelid get_rel_relkind s of
        Inl e \<Rightarrow> Inl e
      | Inr d \<Rightarrow> compile_sections RangeVarGetRelid get_rel_relkind sections
                  (tmpdirectives @ [d]))"

text \<open>
  \<^verbatim>\<open>directive_free\<close> releases the list of indexes with \<^verbatim>\<open>list_free\<close> and then hands the
  directive to \<^verbatim>\<open>free\<close>. Every directive is allocated by the one \<^verbatim>\<open>palloc\<close> in
  \<^verbatim>\<open>varForcedIndexAssign\<close>, and a chunk from \<^verbatim>\<open>palloc\<close> is not one that \<^verbatim>\<open>free\<close> may
  take: the call has no defined behaviour, and the C library ends the process. The
  fault is the outcome \<open>InvalidFree\<close>.
\<close>

datatype fault = InvalidFree

definition directive_free :: "PlanfixDirective \<Rightarrow> fault + unit" where
  "directive_free d = Inl InvalidFree"

text \<open>
  The first block of the function: the stored directives with operation
  \<^verbatim>\<open>PLANFIX_OP_FORCEINDEX\<close> are collected in \<open>fordelete\<close>; then each of them is freed
  and deleted from the store.
\<close>

fun free_and_delete ::
  "PlanfixDirective list \<Rightarrow> PlanfixDirective list \<Rightarrow> fault + PlanfixDirective list" where
  "free_and_delete [] ds = Inr ds"
| "free_and_delete (d # fordelete) ds =
     (case directive_free d of
        Inl f \<Rightarrow> Inl f
      | Inr u \<Rightarrow> free_and_delete fordelete (list_delete_ptr ds d))"

definition delete_forceindex :: "PlanfixDirective list \<Rightarrow> fault + PlanfixDirective list" where
  "delete_forceindex ds =
     (let fordelete = filter (\<lambda>d. op d = PLANFIX_OP_FORCEINDEX) ds
      in free_and_delete fordelete ds)"

text \<open>
  The assignment. The old directives are freed and deleted before the new value is
  looked at; a fault there ends the call. On success the compiled directives are
  appended to the store. At an error \<^verbatim>\<open>elog(ERROR, ...)\<close> leaves the function; the
  \<^verbatim>\<open>error:\<close> label behind it only frees \<open>tmpdirectives\<close>, so either way the store is as
  the first block left it. A call without fault returns the error, if any, paired with
  the globals.
\<close>

definition varForcedIndexAssign ::
  "(string \<Rightarrow> Oid) \<Rightarrow> (Oid \<Rightarrow> char) \<Rightarrow> string \<Rightarrow> ('r, 'm, 'p) globals
     \<Rightarrow> fault + planfix_error option \<times> ('r, 'm, 'p) globals" where
  "varForcedIndexAssign RangeVarGetRelid get_rel_relkind newval g =
     (case delete_forceindex (directives g) of
        Inl f \<Rightarrow> Inl f
      | Inr ds \<Rightarrow>
          (let g1 = g\<lparr>directives := ds\<rparr>
           in case compile_sections RangeVarGetRelid get_rel_relkind
                     (SimpleStringSplit newval CHR '';'') [] of
                Inl e \<Rightarrow> Inr (Some e, g1)
              | Inr tmpdirectives \<Rightarrow>
                  Inr (None, g1\<lparr>directives := directives g1 @ tmpdirectives\<rparr>)))"

subsection \<open>The planner hook: \<^verbatim>\<open>planfixHook\<close>\<close>

text \<open>
  The inner part for a directive that applies to a plain table: the candidates whose
  \<^verbatim>\<open>indexoid\<close> is not in the directive's list are collected in \<open>fordelete\<close> and then
  deleted from \<^verbatim>\<open>rel->indexlist\<close> one by one.
\<close>

definition delete_disallowed ::
  "Oid list \<Rightarrow> 'm IndexOptInfo list \<Rightarrow> 'm IndexOptInfo list" where
  "delete_disallowed allowed_oids il =
     (let fordelete = filter (\<lambda>info. \<not> list_member_oid allowed_oids (indexoid info)) il
      in fold (\<lambda>info il'. list_delete_ptr il' info) fordelete il)"

text \<open>
  The body of \<^verbatim>\<open>foreach (c, directives)\<close> for one directive. \<open>rd_relkind\<close> gives the
  kind found in the relation descriptor that \<^verbatim>\<open>heap_open\<close> returns.
\<close>

definition hook_directive ::
  "(Oid \<Rightarrow> char) \<Rightarrow> Oid \<Rightarrow> PlanfixDirective \<Rightarrow> ('m, 'p) RelOptInfo \<Rightarrow> ('m, 'p) RelOptInfo" where
  "hook_directive rd_relkind relationObjectId d rel =
     (if op d = PLANFIX_OP_FORCEINDEX \<and> relation d = relationObjectId \<and> indices d \<noteq> [] then
        (if rd_relkind relationObjectId = RELKIND_RELATION
         then rel\<lparr>indexlist := delete_disallowed (indices d) (indexlist rel)\<rparr>
         else rel)
      else rel)"

definition planfix_filter ::
  "(Oid \<Rightarrow> char) \<Rightarrow> PlanfixDirective list \<Rightarrow> Oid \<Rightarrow> ('m, 'p) RelOptInfo \<Rightarrow> ('m, 'p) RelOptInfo" where
  "planfix_filter rd_relkind ds relationObjectId rel =
     fold (hook_directive rd_relkind relationObjectId) ds rel"

text \<open>
  The hook: the loop over the stored directives, then the call of \<^verbatim>\<open>oldHook\<close> when it
  is set. The globals are returned next to the \<^verbatim>\<open>RelOptInfo\<close>.
\<close>

definition planfixHook ::
  "(Oid \<Rightarrow> char) \<Rightarrow> ('r, 'm, 'p) globals \<Rightarrow> 'r \<Rightarrow> Oid \<Rightarrow> bool \<Rightarrow> ('m, 'p) RelOptInfo
     \<Rightarrow> ('r, 'm, 'p) globals \<times> ('m, 'p) RelOptInfo" where
  "planfixHook rd_relkind g root relationObjectId inhparent rel =
     (let rel' = planfix_filter rd_relkind (directives g) relationObjectId rel
      in case oldHook g of
           None \<Rightarrow> (g, rel')
         | Some h \<Rightarrow> (g, h root relationObjectId inhparent rel'))"

subsection \<open>Installing the hook: \<^verbatim>\<open>_PG_init\<close>\<close>

text \<open>
  \<^verbatim>\<open>_PG_init\<close> runs once, when the library is loaded. It creates the memory context and
  defines the variable \<^verbatim>\<open>planfix.forcedindex\<close> with the boot value \<^verbatim>\<open>""\<close>;
  \<^verbatim>\<open>DefineCustomStringVariable\<close> initialises a variable by calling its assign hook with
  the boot value, so \<^verbatim>\<open>varForcedIndexAssign\<close> runs with the empty string. A value that
  the configuration holds for the variable before the library is loaded is not part of
  this model. Then, unless the global hook pointer is \<^verbatim>\<open>planfixHook\<close> already, its
  value is saved in \<^verbatim>\<open>oldHook\<close> and \<^verbatim>\<open>planfixHook\<close> is installed.
\<close>

definition install_hook :: "('r, 'm, 'p) globals \<Rightarrow> ('r, 'm, 'p) globals" where
  "install_hook g =
     (case get_relation_info_hook g of
        Some PlanfixHook \<Rightarrow> g
      | Some (ForeignHook h) \<Rightarrow> g\<lparr>oldHook := Some h, get_relation_info_hook := Some PlanfixHook\<rparr>
      | None \<Rightarrow> g\<lparr>oldHook := None, get_relation_info_hook := Some PlanfixHook\<rparr>)"

definition PG_init ::
  "(string \<Rightarrow> Oid) \<Rightarrow> (Oid \<Rightarrow> char) \<Rightarrow> ('r, 'm, 'p) globals \<Rightarrow> fault + ('r, 'm, 'p) globals" where
  "PG_init RangeVarGetRelid get_rel_relkind g =
     (case varForcedIndexAssign RangeVarGetRelid get_rel_relkind [] g of
        Inl f \<Rightarrow> Inl f
      | Inr (e, g1) \<Rightarrow> Inr (install_hook g1))"

subsection \<open>A small catalogue for the examples\<close>

text \<open>
  Two tables, three indexes and a view, under the names used in the specification.
\<close>

definition demo_RangeVarGetRelid :: "string \<Rightarrow> Oid" where
  "demo_RangeVarGetRelid name =
     (if name = ''T1'' then 1 else if name = ''T2'' then 2
      else if name = ''I1'' then 11 else if name = ''I2'' then 12
      else if name = ''I3'' then 13 else if name = ''V1'' then 21
      else InvalidOid)"

definition demo_relkind :: "Oid \<Rightarrow> char" where
  "demo_relkind oid =
     (if oid = 1 \<or> oid = 2 then RELKIND_RELATION
      else if oid = 11 \<or> oid = 12 \<or> oid = 13 then RELKIND_INDEX
      else CHR ''v'')"

definition demo_globals :: "PlanfixDirective list \<Rightarrow> (unit, unit, unit) globals" where
  "demo_globals ds = \<lparr>directives = ds, oldHook = None, get_relation_info_hook = Some PlanfixHook\<rparr>"

definition cand :: "Oid \<Rightarrow> unit IndexOptInfo" where
  "cand i = \<lparr>indexoid = i, index_rest = ()\<rparr>"

definition rel_of :: "unit IndexOptInfo list \<Rightarrow> (unit, unit) RelOptInfo" where
  "rel_of il = \<lparr>indexlist = il, rel_rest = ()\<rparr>"

text \<open>A hook of another module, which reverses the candidate list it is given.\<close>

definition demo_hook :: "(unit, unit, unit) hook_type" where
  "demo_hook root relationObjectId inhparent rel = rel\<lparr>indexlist := rev (indexlist rel)\<rparr>"

text \<open>
  The globals when the library is loaded into a process in which the other module has
  registered its hook, and the globals once \<^verbatim>\<open>_PG_init\<close> has run there.
\<close>

definition demo_start :: "(unit, unit, unit) globals" where
  "demo_start = \<lparr>directives = [], oldHook = None,
     get_relation_info_hook = Some (ForeignHook demo_hook)\<rparr>"

definition demo_loaded :: "PlanfixDirective list \<Rightarrow> (unit, unit, unit) globals" where
  "demo_loaded ds = \<lparr>directives = ds, oldHook = Some demo_hook,
     get_relation_info_hook = Some PlanfixHook\<rparr>"

definition force :: "Oid \<Rightarrow> Oid list \<Rightarrow> PlanfixDirective" where
  "force t ws = \<lparr>op = PLANFIX_OP_FORCEINDEX, relation = t, indices = ws\<rparr>"

section \<open>Properties\<close>

declare split_loop.simps [simp del]

subsection \<open>The tokenizer\<close>

text \<open>
  \<open>runs_between\<close> is the decomposition of a string at its separators: no run holds a
  separator, and joining the runs with the separator gives the string back.
\<close>

lemma runs_between_nonempty: "runs_between separator s \<noteq> []"
  by (induction s) (auto split: list.splits)

lemma runs_between_last_run:
  "dropWhile (\<lambda>c. c \<noteq> separator) s = [] \<Longrightarrow>
   runs_between separator s = [takeWhile (\<lambda>c. c \<noteq> separator) s]"
  by (induction s) (auto split: if_splits)

lemma runs_between_next_run:
  "dropWhile (\<lambda>c. c \<noteq> separator) s = x # rest \<Longrightarrow>
   runs_between separator s = takeWhile (\<lambda>c. c \<noteq> separator) s # runs_between separator rest"
  by (induction s) (auto split: if_splits)

lemma split_loop_spec:
  "split_loop separator s tokenList = tokenList @ split_spec s separator"
proof (induction separator s tokenList rule: split_loop.induct)
  case (1 separator s tokenList)
  let ?curr = "takeWhile (\<lambda>c. c \<noteq> separator) s"
  let ?toks = "if ?curr \<noteq> [] then tokenList @ [?curr] else tokenList"
  show ?case
  proof (cases "dropWhile (\<lambda>c. c \<noteq> separator) s")
    case Nil
    have "split_loop separator s tokenList = ?toks"
      by (subst split_loop.simps) (simp add: Nil)
    also have "\<dots> = tokenList @ split_spec s separator"
      by (simp add: split_spec_def runs_between_last_run [OF Nil])
    finally show ?thesis .
  next
    case (Cons x rest)
    have "split_loop separator s tokenList = split_loop separator rest ?toks"
      by (subst split_loop.simps) (simp add: Cons)
    also have "\<dots> = ?toks @ split_spec rest separator"
      using "1.IH" [OF refl refl refl Cons] by simp
    also have "\<dots> = tokenList @ split_spec s separator"
      by (simp add: split_spec_def runs_between_next_run [OF Cons])
    finally show ?thesis .
  qed
qed

lemma runs_between_no_separator: "t \<in> set (runs_between separator s) \<Longrightarrow> separator \<notin> set t"
  by (induction s arbitrary: t) (auto split: list.splits if_splits)

lemma join_runs_between: "join_runs separator (runs_between separator s) = s"
  by (induction s) (auto split: list.splits simp: runs_between_nonempty)


text \<open>
  Claim C4. For every string and every separator the tokenizer returns, in order, the
  non-empty runs of characters between the occurrences of the separator: empty runs
  are dropped and no trailing separator is needed. In particular \<open>''a,,b,''\<close> gives
  \<open>[''a'', ''b'']\<close>, the empty string gives no token and \<open>''x''\<close> gives \<open>[''x'']\<close>.
\<close>

theorem SimpleStringSplit_tokens:
  "SimpleStringSplit s separator = split_spec s separator
   \<and> SimpleStringSplit ''a,,b,'' CHR '','' = [''a'', ''b'']
   \<and> SimpleStringSplit [] CHR '','' = []
   \<and> SimpleStringSplit ''x'' CHR '','' = [''x'']"
  by (simp add: SimpleStringSplit_def split_loop_spec split_spec_def)

lemma list_delete_ptr_remove1: "list_delete_ptr xs x = remove1 x xs"
  by (induction xs) auto

lemma list_member_oid_set: "list_member_oid xs x = (x \<in> set xs)"
  by (induction xs) auto

lemma fold_delete_filter_gen:
  "\<forall>y\<in>set ys. \<not> P y \<Longrightarrow>
   fold (\<lambda>x l. list_delete_ptr l x) (filter P xs) (ys @ xs) = ys @ filter (\<lambda>x. \<not> P x) xs"
proof (induction xs arbitrary: ys)
  case Nil
  show ?case by simp
next
  case (Cons x xs)
  show ?case
  proof (cases "P x")
    case True
    with Cons.prems have "x \<notin> set ys" by auto
    then have "list_delete_ptr (ys @ x # xs) x = ys @ xs"
      by (simp add: list_delete_ptr_remove1 remove1_append)
    with True Cons.IH [OF Cons.prems] show ?thesis by simp
  next
    case False
    with Cons.prems have "\<forall>y\<in>set (ys @ [x]). \<not> P y" by simp
    from Cons.IH [OF this] False show ?thesis by simp
  qed
qed

lemma fold_delete_filter:
  "fold (\<lambda>x l. list_delete_ptr l x) (filter P xs) xs = filter (\<lambda>x. \<not> P x) xs"
  using fold_delete_filter_gen [of "[]" P xs] by simp

lemma delete_disallowed_filter:
  "delete_disallowed allowed_oids il = filter (\<lambda>info. indexoid info \<in> set allowed_oids) il"
  by (simp add: delete_disallowed_def fold_delete_filter list_member_oid_set)

lemma op_forceindex: "op d = PLANFIX_OP_FORCEINDEX"
  by (cases "op d") simp

lemma delete_forceindex_Nil: "delete_forceindex [] = Inr []"
  by (simp add: delete_forceindex_def)

lemma delete_forceindex_fault: "ds \<noteq> [] \<Longrightarrow> delete_forceindex ds = Inl InvalidFree"
  by (cases ds) (simp_all add: delete_forceindex_def op_forceindex directive_free_def)

subsection \<open>The loop of the hook\<close>

lemma hook_directive_indexlist:
  "indexlist (hook_directive rd_relkind T d rel) =
     (if relation d = T \<and> indices d \<noteq> [] \<and> rd_relkind T = RELKIND_RELATION
      then filter (\<lambda>info. indexoid info \<in> set (indices d)) (indexlist rel)
      else indexlist rel)"
  by (simp add: hook_directive_def delete_disallowed_filter op_forceindex)

lemma hook_directive_rel_rest: "rel_rest (hook_directive rd_relkind T d rel) = rel_rest rel"
  by (simp add: hook_directive_def)

lemma planfix_filter_Cons:
  "planfix_filter rd_relkind (d # ds) T rel =
   planfix_filter rd_relkind ds T (hook_directive rd_relkind T d rel)"
  by (simp add: planfix_filter_def)

lemma planfix_filter_rel_rest: "rel_rest (planfix_filter rd_relkind ds T rel) = rel_rest rel"
  by (induction ds arbitrary: rel) (simp_all add: planfix_filter_def hook_directive_rel_rest)

lemma planfix_filter_indexlist:
  "rd_relkind T = RELKIND_RELATION \<Longrightarrow>
   indexlist (planfix_filter rd_relkind ds T rel) =
     filter (\<lambda>info. \<forall>d\<in>set ds. relation d = T \<and> indices d \<noteq> [] \<longrightarrow> indexoid info \<in> set (indices d))
       (indexlist rel)"
proof (induction ds arbitrary: rel)
  case Nil
  show ?case by (simp add: planfix_filter_def)
next
  case (Cons d ds)
  show ?case
    by (simp add: planfix_filter_Cons Cons.IH [OF Cons.prems] hook_directive_indexlist Cons.prems)
qed

lemma hook_directive_skip:
  "relation d \<noteq> T \<or> indices d = [] \<or> rd_relkind T \<noteq> RELKIND_RELATION \<Longrightarrow>
   hook_directive rd_relkind T d rel = rel"
  by (auto simp: hook_directive_def)

lemma planfix_filter_skip_all:
  "\<forall>d\<in>set ds. relation d = T \<longrightarrow> indices d = [] \<Longrightarrow> planfix_filter rd_relkind ds T rel = rel"
  by (induction ds arbitrary: rel) (auto simp: planfix_filter_def hook_directive_skip)

subsection \<open>Compilation and assignment\<close>

lemma assign_empty_store:
  "directives g = [] \<Longrightarrow>
   varForcedIndexAssign RangeVarGetRelid get_rel_relkind newval g =
     Inr (case compile_sections RangeVarGetRelid get_rel_relkind (SimpleStringSplit newval CHR '';'') [] of
            Inl e \<Rightarrow> (Some e, g)
          | Inr ds \<Rightarrow> (None, g\<lparr>directives := ds\<rparr>))"
  by (cases g) (simp add: varForcedIndexAssign_def delete_forceindex_Nil Let_def split: sum.split)

lemma assign_stored_fault:
  "directives g \<noteq> [] \<Longrightarrow>
   varForcedIndexAssign RangeVarGetRelid get_rel_relkind newval g = Inl InvalidFree"
  by (simp add: varForcedIndexAssign_def delete_forceindex_fault)

lemma assign_failure_empty_store:
  "directives g = [] \<Longrightarrow>
   compile_sections RangeVarGetRelid get_rel_relkind (SimpleStringSplit newval CHR '';'') [] = Inl e \<Longrightarrow>
   varForcedIndexAssign RangeVarGetRelid get_rel_relkind newval g = Inr (Some e, g)"
  by (simp add: assign_empty_store)

lemma PG_init_empty_store:
  "directives g = [] \<Longrightarrow> PG_init RangeVarGetRelid get_rel_relkind g = Inr (install_hook g)"
proof -
  assume e: "directives g = []"
  have "SimpleStringSplit [] CHR '';'' = []"
    by (simp add: SimpleStringSplit_def split_loop_spec split_spec_def)
  with e have "varForcedIndexAssign RangeVarGetRelid get_rel_relkind [] g = Inr (None, g)"
    by (cases g) (simp add: assign_empty_store)
  then show ?thesis by (simp add: PG_init_def)
qed



lemma relkinds_differ: "RELKIND_INDEX \<noteq> RELKIND_RELATION" "RELKIND_RELATION \<noteq> RELKIND_INDEX"
  by (simp_all add: RELKIND_INDEX_def RELKIND_RELATION_def)

lemma section_items_index_no_table:
  "RangeVarGetRelid name \<noteq> InvalidOid \<Longrightarrow> get_rel_relkind (RangeVarGetRelid name) = RELKIND_INDEX \<Longrightarrow>
   relation d = InvalidOid \<Longrightarrow>
   section_items RangeVarGetRelid get_rel_relkind (name # post) d = Inl (IndexBeforeTable name)"
  by (simp add: relkinds_differ)

lemma section_items_index_after_table:
  "RangeVarGetRelid name \<noteq> InvalidOid \<Longrightarrow> get_rel_relkind (RangeVarGetRelid name) = RELKIND_INDEX \<Longrightarrow>
   relation d \<noteq> InvalidOid \<Longrightarrow>
   section_items RangeVarGetRelid get_rel_relkind (name # post) d =
   section_items RangeVarGetRelid get_rel_relkind post (d\<lparr>indices := indices d @ [RangeVarGetRelid name]\<rparr>)"
  by (simp add: relkinds_differ)

lemma section_items_fails_without_table:
  assumes "relation d = InvalidOid"
    and "RangeVarGetRelid name \<noteq> InvalidOid"
    and "get_rel_relkind (RangeVarGetRelid name) = RELKIND_INDEX"
    and "\<forall>n\<in>set pre. RangeVarGetRelid n = InvalidOid \<or> get_rel_relkind (RangeVarGetRelid n) \<noteq> RELKIND_RELATION"
  shows "\<exists>e. section_items RangeVarGetRelid get_rel_relkind (pre @ name # post) d = Inl e"
proof (cases pre)
  case Nil
  with assms show ?thesis by (simp add: relkinds_differ)
next
  case (Cons p pre')
  with assms(4) have "RangeVarGetRelid p = InvalidOid \<or> get_rel_relkind (RangeVarGetRelid p) \<noteq> RELKIND_RELATION"
    by simp
  with assms(1) Cons show ?thesis by (auto simp: Let_def)
qed

lemma compile_sections_member_fails:
  "s \<in> set sections \<Longrightarrow> compile_section RangeVarGetRelid get_rel_relkind s = Inl e' \<Longrightarrow>
   \<exists>e. compile_sections RangeVarGetRelid get_rel_relkind sections tmp = Inl e"
  by (induction sections arbitrary: tmp) (auto split: sum.splits)

lemma compile_sections_append:
  "compile_sections RangeVarGetRelid get_rel_relkind (xs @ ys) tmp =
     (case compile_sections RangeVarGetRelid get_rel_relkind xs tmp of
        Inl e \<Rightarrow> Inl e
      | Inr ds \<Rightarrow> compile_sections RangeVarGetRelid get_rel_relkind ys ds)"
  by (induction xs arbitrary: tmp) (auto split: sum.splits)

lemma section_items_indices:
  "section_items RangeVarGetRelid get_rel_relkind items d = Inr d' \<Longrightarrow>
   indices d' = indices d @
     map RangeVarGetRelid (filter (\<lambda>n. get_rel_relkind (RangeVarGetRelid n) = RELKIND_INDEX) items)"
  by (induction items arbitrary: d) (auto simp: Let_def relkinds_differ split: if_splits)

lemma section_items_table_kind:
  "section_items RangeVarGetRelid get_rel_relkind items d = Inr d' \<Longrightarrow>
   (relation d = InvalidOid \<longrightarrow> indices d = []) \<Longrightarrow>
   (relation d \<noteq> InvalidOid \<longrightarrow> get_rel_relkind (relation d) = RELKIND_RELATION) \<Longrightarrow>
   (relation d' = InvalidOid \<longrightarrow> indices d' = []) \<and>
   (relation d' \<noteq> InvalidOid \<longrightarrow> get_rel_relkind (relation d') = RELKIND_RELATION)"
  by (induction items arbitrary: d) (auto simp: Let_def split: if_splits)

lemma compile_section_table_kind:
  "compile_section RangeVarGetRelid get_rel_relkind s = Inr d \<Longrightarrow>
   indices d \<noteq> [] \<Longrightarrow> get_rel_relkind (relation d) = RELKIND_RELATION"
  using section_items_table_kind [of RangeVarGetRelid get_rel_relkind "SimpleStringSplit s CHR '',''"
      "\<lparr>op = PLANFIX_OP_FORCEINDEX, relation = InvalidOid, indices = []\<rparr>" d]
  by (auto simp: compile_section_def)

lemma compile_sections_table_kind:
  "compile_sections RangeVarGetRelid get_rel_relkind sections tmp = Inr ds \<Longrightarrow>
   \<forall>d\<in>set tmp. indices d \<noteq> [] \<longrightarrow> get_rel_relkind (relation d) = RELKIND_RELATION \<Longrightarrow>
   \<forall>d\<in>set ds. indices d \<noteq> [] \<longrightarrow> get_rel_relkind (relation d) = RELKIND_RELATION"
proof (induction sections arbitrary: tmp)
  case Nil
  then show ?case by simp
next
  case (Cons s sections)
  from Cons.prems(1) obtain d where d: "compile_section RangeVarGetRelid get_rel_relkind s = Inr d"
    and rest: "compile_sections RangeVarGetRelid get_rel_relkind sections (tmp @ [d]) = Inr ds"
    by (auto split: sum.splits)
  have "\<forall>d\<in>set (tmp @ [d]). indices d \<noteq> [] \<longrightarrow> get_rel_relkind (relation d) = RELKIND_RELATION"
    using Cons.prems(2) compile_section_table_kind [OF d] by auto
  from Cons.IH [OF rest this] show ?case .
qed

lemma assign_store_tables_plain:
  "varForcedIndexAssign RangeVarGetRelid get_rel_relkind newval g = Inr (e, g') \<Longrightarrow>
   d \<in> set (directives g') \<Longrightarrow>
   indices d \<noteq> [] \<Longrightarrow> get_rel_relkind (relation d) = RELKIND_RELATION"
proof (cases "directives g = []")
  case True
  assume "varForcedIndexAssign RangeVarGetRelid get_rel_relkind newval g = Inr (e, g')"
    and "d \<in> set (directives g')" and "indices d \<noteq> []"
  then show ?thesis
    using compile_sections_table_kind [of RangeVarGetRelid get_rel_relkind
        "SimpleStringSplit newval CHR '';''" "[]"] True
    by (auto simp: assign_empty_store split: sum.splits)
next
  case False
  assume "varForcedIndexAssign RangeVarGetRelid get_rel_relkind newval g = Inr (e, g')"
  with False show ?thesis by (simp add: assign_stored_fault)
qed

subsection \<open>The example catalogue, evaluated\<close>

lemma demo_section_T1_I1:
  "compile_section demo_RangeVarGetRelid demo_relkind ''T1,I1'' = Inr (force 1 [11])"
  by (simp add: compile_section_def SimpleStringSplit_def split_loop_spec split_spec_def
      demo_RangeVarGetRelid_def demo_relkind_def force_def InvalidOid_def
      RELKIND_RELATION_def RELKIND_INDEX_def)

lemma demo_section_T2_BADNAME:
  "compile_section demo_RangeVarGetRelid demo_relkind ''T2,BADNAME'' = Inl (UnknownIdentifier ''BADNAME'')"
  by (simp add: compile_section_def SimpleStringSplit_def split_loop_spec split_spec_def
      demo_RangeVarGetRelid_def demo_relkind_def force_def InvalidOid_def
      RELKIND_RELATION_def RELKIND_INDEX_def)

lemma demo_section_BADNAME:
  "compile_section demo_RangeVarGetRelid demo_relkind ''BADNAME'' = Inl (UnknownIdentifier ''BADNAME'')"
  by (simp add: compile_section_def SimpleStringSplit_def split_loop_spec split_spec_def
      demo_RangeVarGetRelid_def demo_relkind_def force_def InvalidOid_def
      RELKIND_RELATION_def RELKIND_INDEX_def)

lemma demo_index_I2:
  "demo_RangeVarGetRelid ''I2'' \<noteq> InvalidOid
   \<and> demo_relkind (demo_RangeVarGetRelid ''I2'') = RELKIND_INDEX"
  by (simp add: demo_RangeVarGetRelid_def demo_relkind_def InvalidOid_def)

lemma demo_section_T1_I1_I2:
  "compile_section demo_RangeVarGetRelid demo_relkind ''T1,I1,I2'' = Inr (force 1 [11, 12])"
  by (simp add: compile_section_def SimpleStringSplit_def split_loop_spec split_spec_def
      demo_RangeVarGetRelid_def demo_relkind_def force_def InvalidOid_def
      RELKIND_RELATION_def RELKIND_INDEX_def)

lemma demo_section_T1:
  "compile_section demo_RangeVarGetRelid demo_relkind ''T1'' = Inr (force 1 [])"
  by (simp add: compile_section_def SimpleStringSplit_def split_loop_spec split_spec_def
      demo_RangeVarGetRelid_def demo_relkind_def force_def InvalidOid_def
      RELKIND_RELATION_def RELKIND_INDEX_def)

lemma demo_assign_T1_I1:
  "varForcedIndexAssign demo_RangeVarGetRelid demo_relkind ''T1,I1'' (demo_globals []) =
     Inr (None, demo_globals [force 1 [11]])"
proof -
  have "SimpleStringSplit ''T1,I1'' CHR '';'' = [''T1,I1'']"
    by (simp add: SimpleStringSplit_def split_loop_spec split_spec_def)
  then show ?thesis
    by (simp add: assign_empty_store demo_section_T1_I1 demo_globals_def)
qed

lemma demo_assign_bad:
  "varForcedIndexAssign demo_RangeVarGetRelid demo_relkind ''T1,I1;T2,BADNAME'' (demo_globals []) =
     Inr (Some (UnknownIdentifier ''BADNAME''), demo_globals [])"
proof -
  have "SimpleStringSplit ''T1,I1;T2,BADNAME'' CHR '';'' = [''T1,I1'', ''T2,BADNAME'']"
    by (simp add: SimpleStringSplit_def split_loop_spec split_spec_def)
  then show ?thesis
    by (simp add: assign_empty_store demo_section_T1_I1 demo_section_T2_BADNAME demo_globals_def)
qed

section \<open>The claims\<close>

subsection \<open>A failed assignment\<close>

text \<open>
  Claim C1. A configuration string whose compilation fails is to leave the store as it
  was before the assignment. Over the empty store this is what the code does: the error
  is reported and the store stays empty. Over a store that holds a directive the call
  does not reach the compilation: the first block hands the stored directive, a chunk
  from \<^verbatim>\<open>palloc\<close>, to \<^verbatim>\<open>free\<close>. The store below is the one that the assignment of
  \<open>''T1,I1''\<close> leaves.
\<close>

theorem assign_failure_over_store:
  "varForcedIndexAssign demo_RangeVarGetRelid demo_relkind ''T1,I1;T2,BADNAME'' (demo_globals [])
     = Inr (Some (UnknownIdentifier ''BADNAME''), demo_globals [])
   \<and> varForcedIndexAssign demo_RangeVarGetRelid demo_relkind ''T1,I1'' (demo_globals [])
     = Inr (None, demo_globals [force 1 [11]])
   \<and> varForcedIndexAssign demo_RangeVarGetRelid demo_relkind ''T1,I1;T2,BADNAME''
       (demo_globals [force 1 [11]]) = Inl InvalidFree"
proof -
  have "directives (demo_globals [force 1 [11]]) \<noteq> []"
    by (simp add: demo_globals_def)
  then have "varForcedIndexAssign demo_RangeVarGetRelid demo_relkind ''T1,I1;T2,BADNAME''
       (demo_globals [force 1 [11]]) = Inl InvalidFree"
    by (rule assign_stored_fault)
  then show ?thesis
    by (simp add: demo_assign_bad demo_assign_T1_I1)
qed

subsection \<open>Groups without items\<close>




subsection \<open>Filtering by a whitelist\<close>

text \<open>
  Claim C3, as the code has it. Let the store hold a directive \<open>d\<close> for the plain
  table \<open>T\<close> with a non-empty list of indexes, and let every stored directive for \<open>T\<close>
  with a non-empty list name the same indexes as \<open>d\<close> (as is the case when \<open>d\<close> is the
  only directive for \<open>T\<close>). Then the loop of the hook keeps exactly the candidates whose
  \<open>indexoid\<close> is in the list of \<open>d\<close>, in their order. The candidates of a table
  that no stored directive names are left as they are. With the directive for table 1
  and indexes 11 and 12, the candidates 11, 12, 13 become 11, 12.
\<close>

theorem planfix_filter_whitelist:
  "(d \<in> set ds \<and> relation d = T \<and> indices d \<noteq> [] \<and> rd_relkind T = RELKIND_RELATION
      \<and> (\<forall>d'\<in>set ds. relation d' = T \<and> indices d' \<noteq> [] \<longrightarrow> set (indices d') = set (indices d))
      \<longrightarrow> indexlist (planfix_filter rd_relkind ds T rel) =
            filter (\<lambda>info. indexoid info \<in> set (indices d)) (indexlist rel))
   \<and> ((\<forall>d'\<in>set ds. relation d' \<noteq> U) \<longrightarrow> planfix_filter rd_relkind ds U rel = rel)
   \<and> indexlist (planfix_filter demo_relkind [force 1 [11, 12]] 1
        (rel_of [cand 11, cand 12, cand 13])) = [cand 11, cand 12]"
proof (intro conjI impI)
  assume a: "d \<in> set ds \<and> relation d = T \<and> indices d \<noteq> [] \<and> rd_relkind T = RELKIND_RELATION
      \<and> (\<forall>d'\<in>set ds. relation d' = T \<and> indices d' \<noteq> [] \<longrightarrow> set (indices d') = set (indices d))"
  then have "rd_relkind T = RELKIND_RELATION"
    by blast
  then have "indexlist (planfix_filter rd_relkind ds T rel) =
     filter (\<lambda>info. \<forall>d\<in>set ds. relation d = T \<and> indices d \<noteq> [] \<longrightarrow> indexoid info \<in> set (indices d))
       (indexlist rel)"
    by (rule planfix_filter_indexlist)
  also have "\<dots> = filter (\<lambda>info. indexoid info \<in> set (indices d)) (indexlist rel)"
  proof (rule filter_cong)
    show "indexlist rel = indexlist rel" by simp
  next
    fix info
    from a show "(\<forall>d\<in>set ds. relation d = T \<and> indices d \<noteq> [] \<longrightarrow> indexoid info \<in> set (indices d))
        = (indexoid info \<in> set (indices d))"
      by blast
  qed
  finally show "indexlist (planfix_filter rd_relkind ds T rel) =
            filter (\<lambda>info. indexoid info \<in> set (indices d)) (indexlist rel)" .
next
  assume "\<forall>d'\<in>set ds. relation d' \<noteq> U"
  then show "planfix_filter rd_relkind ds U rel = rel"
    by (simp add: planfix_filter_skip_all)
next
  show "indexlist (planfix_filter demo_relkind [force 1 [11, 12]] 1
        (rel_of [cand 11, cand 12, cand 13])) = [cand 11, cand 12]"
    by (simp add: planfix_filter_def hook_directive_indexlist force_def rel_of_def cand_def
        demo_relkind_def)
qed

text \<open>
  An instance with three stored directives, two of them for table 1, and a candidate
  list with a repeated entry; table 3 has no directive.
\<close>

theorem planfix_filter_whitelist_witness:
  "force 1 [11, 12] \<in> set [force 1 [11, 12], force 2 [13], force 1 []]
   \<and> relation (force 1 [11, 12]) = 1 \<and> indices (force 1 [11, 12]) \<noteq> []
   \<and> demo_relkind 1 = RELKIND_RELATION
   \<and> indexlist (planfix_filter demo_relkind [force 1 [11, 12], force 2 [13], force 1 []] 1
        (rel_of [cand 13, cand 12, cand 11, cand 12])) = [cand 12, cand 11, cand 12]
   \<and> planfix_filter demo_relkind [force 1 [11, 12], force 2 [13], force 1 []] 3
        (rel_of [cand 13, cand 12, cand 11, cand 12]) = rel_of [cand 13, cand 12, cand 11, cand 12]"
proof -
  let ?d = "force 1 [11, 12]"
  let ?ds = "[force 1 [11, 12], force 2 [13], force 1 []]"
  let ?rel = "rel_of [cand 13, cand 12, cand 11, cand 12]"
  note th = planfix_filter_whitelist [of ?d ?ds 1 demo_relkind ?rel 3]
  have h1: "?d \<in> set ?ds" by simp
  have h2: "relation ?d = 1" by (simp add: force_def)
  have h3: "indices ?d \<noteq> []" by (simp add: force_def)
  have h4: "demo_relkind 1 = RELKIND_RELATION" by (simp add: demo_relkind_def)
  have h5: "\<forall>d'\<in>set ?ds. relation d' = 1 \<and> indices d' \<noteq> [] \<longrightarrow> set (indices d') = set (indices ?d)"
    by (simp add: force_def)
  have h6: "\<forall>d'\<in>set ?ds. relation d' \<noteq> 3"
    by (simp add: force_def)
  have c1: "indexlist (planfix_filter demo_relkind ?ds 1 ?rel) =
      filter (\<lambda>info. indexoid info \<in> set (indices ?d)) (indexlist ?rel)"
    using th h1 h2 h3 h4 h5 by blast
  have c2: "planfix_filter demo_relkind ?ds 3 ?rel = ?rel"
    using th h6 by blast
  have e: "filter (\<lambda>info. indexoid info \<in> set (indices ?d)) (indexlist ?rel) = [cand 12, cand 11, cand 12]"
    by (simp add: force_def rel_of_def cand_def)
  show ?thesis
    using h1 h2 h3 h4 c1 c2 e by simp
qed

text \<open>
  The claim as stated speaks of every stored directive. The configuration
  \<open>''T1,I1,I2;T1,I1''\<close> stores two directives for table 1; the first lists the indexes
  11 and 12, and yet candidate 12 is removed.
\<close>

theorem planfix_filter_whitelist_counterexample:
  "varForcedIndexAssign demo_RangeVarGetRelid demo_relkind ''T1,I1,I2;T1,I1'' (demo_globals [])
     = Inr (None, demo_globals [force 1 [11, 12], force 1 [11]])
   \<and> indexlist (snd (planfixHook demo_relkind (demo_globals [force 1 [11, 12], force 1 [11]]) () 1 False
        (rel_of [cand 11, cand 12, cand 13]))) = [cand 11]"
proof -
  have split: "SimpleStringSplit ''T1,I1,I2;T1,I1'' CHR '';'' = [''T1,I1,I2'', ''T1,I1'']"
    by (simp add: SimpleStringSplit_def split_loop_spec split_spec_def)
  have store: "varForcedIndexAssign demo_RangeVarGetRelid demo_relkind ''T1,I1,I2;T1,I1''
      (demo_globals []) = Inr (None, demo_globals [force 1 [11, 12], force 1 [11]])"
    by (simp add: assign_empty_store split demo_section_T1_I1_I2 demo_section_T1_I1 demo_globals_def)
  have hook: "indexlist (snd (planfixHook demo_relkind (demo_globals [force 1 [11, 12], force 1 [11]])
      () 1 False (rel_of [cand 11, cand 12, cand 13]))) = [cand 11]"
    by (simp add: planfixHook_def demo_globals_def planfix_filter_def hook_directive_indexlist
        force_def rel_of_def cand_def demo_relkind_def)
  from store hook show ?thesis by simp
qed

text \<open>
  Claim C5, as the code has it. If every directive that the store holds for \<open>T\<close> has an
  empty list of indexes, which includes the case that it holds no directive for \<open>T\<close>,
  then the loop of the hook leaves the \<^verbatim>\<open>RelOptInfo\<close>, and so the candidate list, as it is.
\<close>

theorem planfix_filter_no_whitelist:
  "\<forall>d\<in>set ds. relation d = T \<longrightarrow> indices d = [] \<Longrightarrow> planfix_filter rd_relkind ds T rel = rel"
  by (rule planfix_filter_skip_all)

text \<open>
  Two instances: a directive for table 1 with an empty list, and no directive for table 1.
\<close>

theorem planfix_filter_no_whitelist_witness:
  "planfix_filter demo_relkind [force 1 [], force 2 [12]] 1 (rel_of [cand 11, cand 12]) =
     rel_of [cand 11, cand 12]
   \<and> planfix_filter demo_relkind [force 2 [12]] 1 (rel_of [cand 11, cand 12]) =
     rel_of [cand 11, cand 12]"
proof -
  have h1: "\<forall>d\<in>set [force 1 [], force 2 [12]]. relation d = 1 \<longrightarrow> indices d = []"
    by (simp add: force_def)
  have h2: "\<forall>d\<in>set [force 2 [12]]. relation d = 1 \<longrightarrow> indices d = []"
    by (simp add: force_def)
  show ?thesis
    using planfix_filter_no_whitelist [OF h1, of demo_relkind "rel_of [cand 11, cand 12]"]
      planfix_filter_no_whitelist [OF h2, of demo_relkind "rel_of [cand 11, cand 12]"]
    by blast
qed

text \<open>
  The claim as stated asks for one directive for \<open>T\<close> with an empty list. The
  configuration \<open>''T1;T1,I1''\<close> stores such a directive and a second one for the same
  table, and candidate 12 is removed.
\<close>

theorem planfix_filter_no_whitelist_counterexample:
  "varForcedIndexAssign demo_RangeVarGetRelid demo_relkind ''T1;T1,I1'' (demo_globals [])
     = Inr (None, demo_globals [force 1 [], force 1 [11]])
   \<and> indexlist (snd (planfixHook demo_relkind (demo_globals [force 1 [], force 1 [11]]) () 1 False
        (rel_of [cand 11, cand 12]))) = [cand 11]"
proof -
  have split: "SimpleStringSplit ''T1;T1,I1'' CHR '';'' = [''T1'', ''T1,I1'']"
    by (simp add: SimpleStringSplit_def split_loop_spec split_spec_def)
  have store: "varForcedIndexAssign demo_RangeVarGetRelid demo_relkind ''T1;T1,I1''
      (demo_globals []) = Inr (None, demo_globals [force 1 [], force 1 [11]])"
    by (simp add: assign_empty_store split demo_section_T1 demo_section_T1_I1 demo_globals_def)
  have hook: "indexlist (snd (planfixHook demo_relkind (demo_globals [force 1 [], force 1 [11]])
      () 1 False (rel_of [cand 11, cand 12]))) = [cand 11]"
    by (simp add: planfixHook_def demo_globals_def planfix_filter_def hook_directive_indexlist
        force_def rel_of_def cand_def demo_relkind_def)
  from store hook show ?thesis by simp
qed

text \<open>
  Claim C9. For a plain table \<open>T\<close> the loop of the hook applies the stored directives in
  the order of the store, each to the list the earlier ones have left; a directive for
  \<open>T\<close> with a non-empty list keeps exactly the candidates in its list. Hence a
  candidate survives if and only if it is in the list of every directive for \<open>T\<close> whose
  list is not empty.
\<close>

theorem planfix_filter_intersection:
  "rd_relkind T = RELKIND_RELATION \<Longrightarrow>
   planfix_filter rd_relkind (d # ds) T rel =
     planfix_filter rd_relkind ds T (hook_directive rd_relkind T d rel)
   \<and> (relation d = T \<and> indices d \<noteq> [] \<longrightarrow>
        indexlist (hook_directive rd_relkind T d rel) =
          filter (\<lambda>info. indexoid info \<in> set (indices d)) (indexlist rel))
   \<and> indexlist (planfix_filter rd_relkind ds T rel) =
       filter (\<lambda>info. \<forall>d\<in>set ds. relation d = T \<and> indices d \<noteq> [] \<longrightarrow>
                        indexoid info \<in> set (indices d))
         (indexlist rel)"
  by (simp add: planfix_filter_Cons hook_directive_indexlist planfix_filter_indexlist)

text \<open>
  An instance: three directives for table 1, one of them with an empty list, and one
  directive for table 2. Only candidate 12 is in both non-empty lists for table 1.
\<close>

theorem planfix_filter_intersection_witness:
  "demo_relkind 1 = RELKIND_RELATION
   \<and> indexlist (hook_directive demo_relkind 1 (force 1 [11, 12]) (rel_of [cand 11, cand 12, cand 13])) =
       [cand 11, cand 12]
   \<and> indexlist (planfix_filter demo_relkind [force 1 [11, 12], force 1 [], force 2 [11], force 1 [12, 13]] 1
        (rel_of [cand 11, cand 12, cand 13])) = [cand 12]"
proof -
  let ?ds = "[force 1 [11, 12], force 1 [], force 2 [11], force 1 [12, 13]]"
  let ?rel = "rel_of [cand 11, cand 12, cand 13]"
  have h: "demo_relkind 1 = RELKIND_RELATION"
    by (simp add: demo_relkind_def)
  note th = planfix_filter_intersection [of demo_relkind 1 "force 1 [11, 12]" ?ds ?rel, OF h]
  have m: "relation (force 1 [11, 12]) = 1 \<and> indices (force 1 [11, 12]) \<noteq> []"
    by (simp add: force_def)
  have c1: "indexlist (hook_directive demo_relkind 1 (force 1 [11, 12]) ?rel) =
      filter (\<lambda>info. indexoid info \<in> set (indices (force 1 [11, 12]))) (indexlist ?rel)"
    using th m by blast
  have c2: "indexlist (planfix_filter demo_relkind ?ds 1 ?rel) =
      filter (\<lambda>info. \<forall>d\<in>set ?ds. relation d = 1 \<and> indices d \<noteq> [] \<longrightarrow>
                        indexoid info \<in> set (indices d)) (indexlist ?rel)"
    using th by blast
  have e1: "filter (\<lambda>info. indexoid info \<in> set (indices (force 1 [11, 12]))) (indexlist ?rel)
      = [cand 11, cand 12]"
    by (simp add: force_def rel_of_def cand_def)
  have e2: "filter (\<lambda>info. \<forall>d\<in>set ?ds. relation d = 1 \<and> indices d \<noteq> [] \<longrightarrow>
                        indexoid info \<in> set (indices d)) (indexlist ?rel) = [cand 12]"
    by (simp add: force_def rel_of_def cand_def)
  from h c1 c2 e1 e2 show ?thesis by simp
qed

subsection \<open>What the hook changes and whom it calls\<close>

text \<open>
  Claim C10. The hook returns the globals it was given, so the stored directives, their
  tables and their lists of indexes are the same before and after the call. Of the
  \<^verbatim>\<open>RelOptInfo\<close> the loop of the hook changes the candidate list only.
\<close>

theorem planfixHook_store_unchanged:
  "fst (planfixHook rd_relkind g root T inhparent rel) = g
   \<and> planfix_filter rd_relkind (directives g) T rel =
       rel\<lparr>indexlist := indexlist (planfix_filter rd_relkind (directives g) T rel)\<rparr>"
proof
  show "fst (planfixHook rd_relkind g root T inhparent rel) = g"
    by (simp add: planfixHook_def Let_def split: option.split)
next
  have "rel_rest (planfix_filter rd_relkind (directives g) T rel) = rel_rest rel"
    by (rule planfix_filter_rel_rest)
  then show "planfix_filter rd_relkind (directives g) T rel =
       rel\<lparr>indexlist := indexlist (planfix_filter rd_relkind (directives g) T rel)\<rparr>"
    by (cases rel, cases "planfix_filter rd_relkind (directives g) T rel") simp
qed

text \<open>
  Claim C7. Where \<^verbatim>\<open>oldHook\<close> is set, the result of the hook is the result of
  \<^verbatim>\<open>oldHook\<close>, called with the same root, the same relation identifier, the same
  \<^verbatim>\<open>inhparent\<close> and the \<^verbatim>\<open>RelOptInfo\<close> as the loop has left it; where it is not set, the
  result is what the loop has left. \<^verbatim>\<open>_PG_init\<close>, run when the library is loaded and the
  store is empty, saves in \<^verbatim>\<open>oldHook\<close> the hook that another module has registered
  before, or the null pointer when there is none, and registers \<^verbatim>\<open>planfixHook\<close>.
\<close>

theorem planfixHook_chains:
  "(oldHook g = Some h \<longrightarrow>
      snd (planfixHook rd_relkind g root T inhparent rel) =
        h root T inhparent (planfix_filter rd_relkind (directives g) T rel))
   \<and> (oldHook g = None \<longrightarrow>
      snd (planfixHook rd_relkind g root T inhparent rel) =
        planfix_filter rd_relkind (directives g) T rel)
   \<and> (directives g = [] \<and> get_relation_info_hook g = Some (ForeignHook h) \<longrightarrow>
      PG_init RangeVarGetRelid get_rel_relkind g =
        Inr (g\<lparr>oldHook := Some h, get_relation_info_hook := Some PlanfixHook\<rparr>))
   \<and> (directives g = [] \<and> get_relation_info_hook g = None \<longrightarrow>
      PG_init RangeVarGetRelid get_rel_relkind g =
        Inr (g\<lparr>oldHook := None, get_relation_info_hook := Some PlanfixHook\<rparr>))"
  by (simp add: planfixHook_def Let_def PG_init_empty_store install_hook_def)

text \<open>
  An instance: a hook of another module that reverses the candidate list is registered
  when the library is loaded. \<^verbatim>\<open>_PG_init\<close> saves it, the assignment of \<open>''T1,I1,I2''\<close>
  stores a directive, and the candidates 11, 12, 13 of table 1 are filtered to 11, 12 and
  then reversed. Where no hook was registered before, the result is the filtered list.
\<close>

theorem planfixHook_chains_witness:
  "PG_init demo_RangeVarGetRelid demo_relkind demo_start = Inr (demo_loaded [])
   \<and> varForcedIndexAssign demo_RangeVarGetRelid demo_relkind ''T1,I1,I2'' (demo_loaded [])
       = Inr (None, demo_loaded [force 1 [11, 12]])
   \<and> snd (planfixHook demo_relkind (demo_loaded [force 1 [11, 12]])
        () 1 False (rel_of [cand 11, cand 12, cand 13])) = rel_of [cand 12, cand 11]
   \<and> PG_init demo_RangeVarGetRelid demo_relkind
        \<lparr>directives = [], oldHook = None, get_relation_info_hook = None\<rparr> = Inr (demo_globals [])
   \<and> snd (planfixHook demo_relkind (demo_globals [force 1 [11, 12]])
        () 1 False (rel_of [cand 11, cand 12, cand 13])) = rel_of [cand 11, cand 12]"
proof -
  let ?rel = "rel_of [cand 11, cand 12, cand 13]"
  let ?g = "demo_loaded [force 1 [11, 12]]"
  let ?n = "\<lparr>directives = [], oldHook = None, get_relation_info_hook = None\<rparr>
      :: (unit, unit, unit) globals"
  have s: "directives demo_start = [] \<and> get_relation_info_hook demo_start = Some (ForeignHook demo_hook)"
    by (simp add: demo_start_def)
  have "PG_init demo_RangeVarGetRelid demo_relkind demo_start =
      Inr (demo_start\<lparr>oldHook := Some demo_hook, get_relation_info_hook := Some PlanfixHook\<rparr>)"
    using planfixHook_chains [of demo_start demo_hook demo_relkind "()" 1 False ?rel
        demo_RangeVarGetRelid demo_relkind] s
    by blast
  then have init: "PG_init demo_RangeVarGetRelid demo_relkind demo_start = Inr (demo_loaded [])"
    by (simp add: demo_start_def demo_loaded_def)
  have split: "SimpleStringSplit ''T1,I1,I2'' CHR '';'' = [''T1,I1,I2'']"
    by (simp add: SimpleStringSplit_def split_loop_spec split_spec_def)
  have store: "varForcedIndexAssign demo_RangeVarGetRelid demo_relkind ''T1,I1,I2'' (demo_loaded [])
       = Inr (None, ?g)"
    by (simp add: assign_empty_store split demo_section_T1_I1_I2 demo_loaded_def)
  have filt: "planfix_filter demo_relkind [force 1 [11, 12]] 1 ?rel = rel_of [cand 11, cand 12]"
    by (simp add: planfix_filter_def hook_directive_def delete_disallowed_filter force_def
        rel_of_def cand_def demo_relkind_def)
  have old: "oldHook ?g = Some demo_hook"
    by (simp add: demo_loaded_def)
  have dirs: "directives ?g = [force 1 [11, 12]]"
    by (simp add: demo_loaded_def)
  have "snd (planfixHook demo_relkind ?g () 1 False ?rel) =
      demo_hook () 1 False (planfix_filter demo_relkind (directives ?g) 1 ?rel)"
    using planfixHook_chains [of ?g demo_hook demo_relkind "()" 1 False ?rel
        demo_RangeVarGetRelid demo_relkind] old
    by blast
  also have "\<dots> = rel_of [cand 12, cand 11]"
    unfolding dirs filt by (simp add: demo_hook_def rel_of_def)
  finally have chain: "snd (planfixHook demo_relkind ?g () 1 False ?rel) = rel_of [cand 12, cand 11]" .
  have n: "directives ?n = [] \<and> get_relation_info_hook ?n = None"
    by simp
  have "PG_init demo_RangeVarGetRelid demo_relkind ?n =
      Inr (?n\<lparr>oldHook := None, get_relation_info_hook := Some PlanfixHook\<rparr>)"
    using planfixHook_chains [of ?n demo_hook demo_relkind "()" 1 False ?rel
        demo_RangeVarGetRelid demo_relkind] n
    by blast
  then have init0: "PG_init demo_RangeVarGetRelid demo_relkind ?n = Inr (demo_globals [])"
    by (simp add: demo_globals_def)
  have none0: "oldHook (demo_globals [force 1 [11, 12]]) = None"
    by (simp add: demo_globals_def)
  have "snd (planfixHook demo_relkind (demo_globals [force 1 [11, 12]]) () 1 False ?rel) =
      planfix_filter demo_relkind (directives (demo_globals [force 1 [11, 12]])) 1 ?rel"
    using planfixHook_chains [of "demo_globals [force 1 [11, 12]]" demo_hook demo_relkind "()" 1 False ?rel
        demo_RangeVarGetRelid demo_relkind] none0
    by blast
  also have "\<dots> = rel_of [cand 11, cand 12]"
    using filt by (simp add: demo_globals_def)
  finally have none: "snd (planfixHook demo_relkind (demo_globals [force 1 [11, 12]]) () 1 False ?rel) =
      rel_of [cand 11, cand 12]" .
  from init store chain init0 none show ?thesis by simp
qed

subsection \<open>Indexes and tables within a group\<close>

lemma section_items_append:
  "section_items RangeVarGetRelid get_rel_relkind (xs @ ys) d =
     (case section_items RangeVarGetRelid get_rel_relkind xs d of
        Inl e \<Rightarrow> Inl e
      | Inr d' \<Rightarrow> section_items RangeVarGetRelid get_rel_relkind ys d')"
  by (induction xs arbitrary: d) (simp_all add: Let_def)

lemma section_items_first_rejected:
  "section_items RangeVarGetRelid get_rel_relkind pre d0 = Inr d \<Longrightarrow>
   section_items RangeVarGetRelid get_rel_relkind [name] d = Inl e \<Longrightarrow>
   section_items RangeVarGetRelid get_rel_relkind (pre @ name # post) d0 = Inl e"
  using section_items_append [of RangeVarGetRelid get_rel_relkind pre "[name] @ post" d0]
    section_items_append [of RangeVarGetRelid get_rel_relkind "[name]" post d]
  by simp

text \<open>
  Claim C6, as the code has it, for an assignment over the empty store. If some group
  of the configuration string holds an item that resolves to an index and no item before
  it in the group resolves to a table, the assignment fails and the store stays empty.
  The error reported is that of the first item that is not accepted: when all earlier
  groups compile and the items before it in its group are accepted, the error of that
  item is the error of the assignment. It is \<open>IndexBeforeTable\<close> for an index that is
  the first item of its group. When the directive under construction has its table, an
  item that resolves to an index is appended to the directive's list and the loop goes on.
\<close>

theorem index_before_table:
  "(directives g = []
      \<and> s \<in> set (SimpleStringSplit newval CHR '';'')
      \<and> SimpleStringSplit s CHR '','' = pre @ name # post
      \<and> RangeVarGetRelid name \<noteq> InvalidOid
      \<and> get_rel_relkind (RangeVarGetRelid name) = RELKIND_INDEX
      \<and> (\<forall>n\<in>set pre. RangeVarGetRelid n = InvalidOid
                      \<or> get_rel_relkind (RangeVarGetRelid n) \<noteq> RELKIND_RELATION)
      \<longrightarrow> (\<exists>e. varForcedIndexAssign RangeVarGetRelid get_rel_relkind newval g = Inr (Some e, g)))
   \<and> (directives g = []
      \<and> SimpleStringSplit newval CHR '';'' = before @ s # after
      \<and> compile_sections RangeVarGetRelid get_rel_relkind before [] = Inr ds
      \<and> SimpleStringSplit s CHR '','' = pre @ name # post
      \<and> section_items RangeVarGetRelid get_rel_relkind pre
            \<lparr>op = PLANFIX_OP_FORCEINDEX, relation = InvalidOid, indices = []\<rparr> = Inr d
      \<and> section_items RangeVarGetRelid get_rel_relkind [name] d = Inl e
      \<longrightarrow> varForcedIndexAssign RangeVarGetRelid get_rel_relkind newval g = Inr (Some e, g))
   \<and> (directives g = []
      \<and> SimpleStringSplit newval CHR '';'' = before @ s # after
      \<and> compile_sections RangeVarGetRelid get_rel_relkind before [] = Inr ds
      \<and> SimpleStringSplit s CHR '','' = name # post
      \<and> RangeVarGetRelid name \<noteq> InvalidOid
      \<and> get_rel_relkind (RangeVarGetRelid name) = RELKIND_INDEX
      \<longrightarrow> varForcedIndexAssign RangeVarGetRelid get_rel_relkind newval g
            = Inr (Some (IndexBeforeTable name), g))
   \<and> (relation d' \<noteq> InvalidOid
      \<and> RangeVarGetRelid name \<noteq> InvalidOid
      \<and> get_rel_relkind (RangeVarGetRelid name) = RELKIND_INDEX
      \<longrightarrow> section_items RangeVarGetRelid get_rel_relkind (name # post) d' =
          section_items RangeVarGetRelid get_rel_relkind post
            (d'\<lparr>indices := indices d' @ [RangeVarGetRelid name]\<rparr>))"
proof (intro conjI impI)
  assume a: "directives g = []
      \<and> s \<in> set (SimpleStringSplit newval CHR '';'')
      \<and> SimpleStringSplit s CHR '','' = pre @ name # post
      \<and> RangeVarGetRelid name \<noteq> InvalidOid
      \<and> get_rel_relkind (RangeVarGetRelid name) = RELKIND_INDEX
      \<and> (\<forall>n\<in>set pre. RangeVarGetRelid n = InvalidOid
                      \<or> get_rel_relkind (RangeVarGetRelid n) \<noteq> RELKIND_RELATION)"
  have "\<exists>e. section_items RangeVarGetRelid get_rel_relkind (pre @ name # post)
      \<lparr>op = PLANFIX_OP_FORCEINDEX, relation = InvalidOid, indices = []\<rparr> = Inl e"
    using a by (intro section_items_fails_without_table) simp_all
  then obtain e' where "compile_section RangeVarGetRelid get_rel_relkind s = Inl e'"
    using a by (auto simp: compile_section_def)
  with a obtain e where "compile_sections RangeVarGetRelid get_rel_relkind
      (SimpleStringSplit newval CHR '';'') [] = Inl e"
    using compile_sections_member_fails by blast
  with a have "varForcedIndexAssign RangeVarGetRelid get_rel_relkind newval g = Inr (Some e, g)"
    by (simp add: assign_failure_empty_store)
  then show "\<exists>e. varForcedIndexAssign RangeVarGetRelid get_rel_relkind newval g = Inr (Some e, g)"
    by blast
next
  assume b: "directives g = []
      \<and> SimpleStringSplit newval CHR '';'' = before @ s # after
      \<and> compile_sections RangeVarGetRelid get_rel_relkind before [] = Inr ds
      \<and> SimpleStringSplit s CHR '','' = pre @ name # post
      \<and> section_items RangeVarGetRelid get_rel_relkind pre
            \<lparr>op = PLANFIX_OP_FORCEINDEX, relation = InvalidOid, indices = []\<rparr> = Inr d
      \<and> section_items RangeVarGetRelid get_rel_relkind [name] d = Inl e"
  then have "compile_section RangeVarGetRelid get_rel_relkind s = Inl e"
    by (simp add: compile_section_def section_items_first_rejected)
  with b have "compile_sections RangeVarGetRelid get_rel_relkind
      (SimpleStringSplit newval CHR '';'') [] = Inl e"
    by (simp add: compile_sections_append)
  with b show "varForcedIndexAssign RangeVarGetRelid get_rel_relkind newval g = Inr (Some e, g)"
    by (simp add: assign_failure_empty_store)
next
  assume b: "directives g = []
      \<and> SimpleStringSplit newval CHR '';'' = before @ s # after
      \<and> compile_sections RangeVarGetRelid get_rel_relkind before [] = Inr ds
      \<and> SimpleStringSplit s CHR '','' = name # post
      \<and> RangeVarGetRelid name \<noteq> InvalidOid
      \<and> get_rel_relkind (RangeVarGetRelid name) = RELKIND_INDEX"
  then have "compile_section RangeVarGetRelid get_rel_relkind s = Inl (IndexBeforeTable name)"
    by (simp add: compile_section_def relkinds_differ)
  with b have "compile_sections RangeVarGetRelid get_rel_relkind
      (SimpleStringSplit newval CHR '';'') [] = Inl (IndexBeforeTable name)"
    by (simp add: compile_sections_append)
  with b show "varForcedIndexAssign RangeVarGetRelid get_rel_relkind newval g
            = Inr (Some (IndexBeforeTable name), g)"
    by (simp add: assign_failure_empty_store)
next
  assume "relation d' \<noteq> InvalidOid
      \<and> RangeVarGetRelid name \<noteq> InvalidOid
      \<and> get_rel_relkind (RangeVarGetRelid name) = RELKIND_INDEX"
  then show "section_items RangeVarGetRelid get_rel_relkind (name # post) d' =
          section_items RangeVarGetRelid get_rel_relkind post
            (d'\<lparr>indices := indices d' @ [RangeVarGetRelid name]\<rparr>)"
    by (simp add: relkinds_differ)
qed

text \<open>
  Instances, all over the empty store: \<open>''I2,T1''\<close>; the same fault in the second group of
  a configuration; a view after the table of the second group, whose error is the one
  reported; and the index \<open>I2\<close> appended to a directive for table 1.
\<close>

theorem index_before_table_witness:
  "varForcedIndexAssign demo_RangeVarGetRelid demo_relkind ''I2,T1'' (demo_globals [])
      = Inr (Some (IndexBeforeTable ''I2''), demo_globals [])
   \<and> varForcedIndexAssign demo_RangeVarGetRelid demo_relkind ''T1,I1;I2,T2'' (demo_globals [])
      = Inr (Some (IndexBeforeTable ''I2''), demo_globals [])
   \<and> (\<exists>e. varForcedIndexAssign demo_RangeVarGetRelid demo_relkind ''T1,I1;I2,T2'' (demo_globals [])
      = Inr (Some e, demo_globals []))
   \<and> varForcedIndexAssign demo_RangeVarGetRelid demo_relkind ''T1,I1;T2,V1,I2'' (demo_globals [])
      = Inr (Some (UnsupportedRelationKind ''V1''), demo_globals [])
   \<and> section_items demo_RangeVarGetRelid demo_relkind [''I2''] (force 1 [11]) = Inr (force 1 [11, 12])"
proof -
  note ix = demo_index_I2
  let ?d0 = "\<lparr>op = PLANFIX_OP_FORCEINDEX, relation = InvalidOid, indices = []\<rparr>"
  have e: "directives (demo_globals []) = []"
    by (simp add: demo_globals_def)
  have sp1: "SimpleStringSplit ''I2,T1'' CHR '';'' = [] @ ''I2,T1'' # []"
    by (simp add: SimpleStringSplit_def split_loop_spec split_spec_def)
  have it1: "SimpleStringSplit ''I2,T1'' CHR '','' = ''I2'' # [''T1'']"
    by (simp add: SimpleStringSplit_def split_loop_spec split_spec_def)
  have c0: "compile_sections demo_RangeVarGetRelid demo_relkind [] [] = Inr []"
    by simp
  have w1: "varForcedIndexAssign demo_RangeVarGetRelid demo_relkind ''I2,T1'' (demo_globals [])
      = Inr (Some (IndexBeforeTable ''I2''), demo_globals [])"
    using index_before_table [of "demo_globals []" "''I2,T1''" "''I2,T1''" "[]" "''I2''" "[''T1'']"
        demo_RangeVarGetRelid demo_relkind "[]" "[]" "[]" ?d0 "IndexBeforeTable ''I2''" "force 1 [11]"]
      e sp1 it1 c0 ix by blast
  have sp2: "SimpleStringSplit ''T1,I1;I2,T2'' CHR '';'' = [''T1,I1''] @ ''I2,T2'' # []"
    by (simp add: SimpleStringSplit_def split_loop_spec split_spec_def)
  have it2: "SimpleStringSplit ''I2,T2'' CHR '','' = ''I2'' # [''T2'']"
    by (simp add: SimpleStringSplit_def split_loop_spec split_spec_def)
  have c1: "compile_sections demo_RangeVarGetRelid demo_relkind [''T1,I1''] [] = Inr [force 1 [11]]"
    by (simp add: demo_section_T1_I1)
  note th = index_before_table [of "demo_globals []" "''I2,T2''" "''T1,I1;I2,T2''" "[]" "''I2''" "[''T2'']"
        demo_RangeVarGetRelid demo_relkind "[''T1,I1'']" "[]" "[force 1 [11]]" ?d0
        "IndexBeforeTable ''I2''" "force 1 [11]"]
  have w2: "varForcedIndexAssign demo_RangeVarGetRelid demo_relkind ''T1,I1;I2,T2'' (demo_globals [])
      = Inr (Some (IndexBeforeTable ''I2''), demo_globals [])"
    using th e sp2 it2 c1 ix by blast
  have mem: "''I2,T2'' \<in> set (SimpleStringSplit ''T1,I1;I2,T2'' CHR '';'')"
    by (simp add: sp2)
  have it2': "SimpleStringSplit ''I2,T2'' CHR '','' = [] @ ''I2'' # [''T2'']"
    by (simp add: it2)
  have none: "\<forall>n\<in>set ([] :: string list). demo_RangeVarGetRelid n = InvalidOid
      \<or> demo_relkind (demo_RangeVarGetRelid n) \<noteq> RELKIND_RELATION"
    by simp
  have w3: "\<exists>e. varForcedIndexAssign demo_RangeVarGetRelid demo_relkind ''T1,I1;I2,T2'' (demo_globals [])
      = Inr (Some e, demo_globals [])"
    using th e mem it2' none ix by blast
  have sp3: "SimpleStringSplit ''T1,I1;T2,V1,I2'' CHR '';'' = [''T1,I1''] @ ''T2,V1,I2'' # []"
    by (simp add: SimpleStringSplit_def split_loop_spec split_spec_def)
  have it3: "SimpleStringSplit ''T2,V1,I2'' CHR '','' = [''T2''] @ ''V1'' # [''I2'']"
    by (simp add: SimpleStringSplit_def split_loop_spec split_spec_def)
  have p3: "section_items demo_RangeVarGetRelid demo_relkind [''T2''] ?d0 = Inr (force 2 [])"
    by (simp add: demo_RangeVarGetRelid_def demo_relkind_def force_def InvalidOid_def
        RELKIND_RELATION_def RELKIND_INDEX_def)
  have r3: "section_items demo_RangeVarGetRelid demo_relkind [''V1''] (force 2 [])
      = Inl (UnsupportedRelationKind ''V1'')"
    by (simp add: demo_RangeVarGetRelid_def demo_relkind_def force_def InvalidOid_def
        RELKIND_RELATION_def RELKIND_INDEX_def)
  have w4: "varForcedIndexAssign demo_RangeVarGetRelid demo_relkind ''T1,I1;T2,V1,I2'' (demo_globals [])
      = Inr (Some (UnsupportedRelationKind ''V1''), demo_globals [])"
    using index_before_table [of "demo_globals []" "''T2,V1,I2''" "''T1,I1;T2,V1,I2''" "[''T2'']"
        "''V1''" "[''I2'']" demo_RangeVarGetRelid demo_relkind "[''T1,I1'']" "[]" "[force 1 [11]]"
        "force 2 []" "UnsupportedRelationKind ''V1''" "force 1 [11]"]
      e sp3 it3 c1 p3 r3 by blast
  have rel: "relation (force 1 [11]) \<noteq> InvalidOid"
    by (simp add: force_def InvalidOid_def)
  have "section_items demo_RangeVarGetRelid demo_relkind (''I2'' # []) (force 1 [11]) =
      section_items demo_RangeVarGetRelid demo_relkind []
        ((force 1 [11])\<lparr>indices := indices (force 1 [11]) @ [demo_RangeVarGetRelid ''I2'']\<rparr>)"
    using index_before_table [of "demo_globals []" "''I2,T2''" "''T1,I1;I2,T2''" "[]" "''I2''" "[]"
        demo_RangeVarGetRelid demo_relkind "[''T1,I1'']" "[]" "[force 1 [11]]" ?d0
        "IndexBeforeTable ''I2''" "force 1 [11]"] rel ix by blast
  then have w5: "section_items demo_RangeVarGetRelid demo_relkind [''I2''] (force 1 [11])
      = Inr (force 1 [11, 12])"
    by (simp add: force_def demo_RangeVarGetRelid_def)
  from w1 w2 w3 w4 w5 show ?thesis by simp
qed

text \<open>
  The claim as stated names the error. In \<open>''BADNAME;I1,T1''\<close> the second group has an
  index before its table, and the assignment fails with the error of the first group.
\<close>

theorem index_before_table_counterexample:
  "SimpleStringSplit ''BADNAME;I1,T1'' CHR '';'' = [''BADNAME'', ''I1,T1'']
   \<and> SimpleStringSplit ''I1,T1'' CHR '','' = [''I1'', ''T1'']
   \<and> demo_relkind (demo_RangeVarGetRelid ''I1'') = RELKIND_INDEX
   \<and> demo_relkind (demo_RangeVarGetRelid ''T1'') = RELKIND_RELATION
   \<and> varForcedIndexAssign demo_RangeVarGetRelid demo_relkind ''BADNAME;I1,T1'' (demo_globals [])
      = Inr (Some (UnknownIdentifier ''BADNAME''), demo_globals [])"
proof -
  have s1: "SimpleStringSplit ''BADNAME;I1,T1'' CHR '';'' = [''BADNAME'', ''I1,T1'']"
    by (simp add: SimpleStringSplit_def split_loop_spec split_spec_def)
  have s2: "SimpleStringSplit ''I1,T1'' CHR '','' = [''I1'', ''T1'']"
    by (simp add: SimpleStringSplit_def split_loop_spec split_spec_def)
  have k: "demo_relkind (demo_RangeVarGetRelid ''I1'') = RELKIND_INDEX
      \<and> demo_relkind (demo_RangeVarGetRelid ''T1'') = RELKIND_RELATION"
    by (simp add: demo_RangeVarGetRelid_def demo_relkind_def)
  have f: "varForcedIndexAssign demo_RangeVarGetRelid demo_relkind ''BADNAME;I1,T1'' (demo_globals [])
      = Inr (Some (UnknownIdentifier ''BADNAME''), demo_globals [])"
    by (simp add: assign_empty_store s1 demo_section_BADNAME demo_globals_def)
  from s1 s2 k f show ?thesis by simp
qed

subsection \<open>Assigning twice\<close>

text \<open>
  Claim C8. Assigning a valid configuration string a second time is to give the store
  that the first assignment gave. The first assignment of \<open>''T1,I1''\<close> over the empty
  store installs one directive. The second assignment runs over that store, and its
  first block hands the stored directive, a chunk from \<^verbatim>\<open>palloc\<close>, to \<^verbatim>\<open>free\<close>: the
  same fault as for claim C1.
\<close>

theorem assign_twice_fault:
  "varForcedIndexAssign demo_RangeVarGetRelid demo_relkind ''T1,I1'' (demo_globals [])
     = Inr (None, demo_globals [force 1 [11]])
   \<and> varForcedIndexAssign demo_RangeVarGetRelid demo_relkind ''T1,I1''
       (demo_globals [force 1 [11]]) = Inl InvalidFree"
proof -
  have "directives (demo_globals [force 1 [11]]) \<noteq> []"
    by (simp add: demo_globals_def)
  then have "varForcedIndexAssign demo_RangeVarGetRelid demo_relkind ''T1,I1''
       (demo_globals [force 1 [11]]) = Inl InvalidFree"
    by (rule assign_stored_fault)
  then show ?thesis
    by (simp add: demo_assign_T1_I1)
qed

end
